theory Spec2Isabelle
  imports Main
begin

section \<open>The maxStalenessSeconds stage of server selection\<close>

text \<open>
  The module \<open>pymongo/max_staleness_selectors.py\<close> filters the members of a
  replica-set snapshot by their estimated staleness.
  Times and durations are numbers of seconds; they are modelled as \<open>int\<close> (Python's
  unbounded integers), so rounding of floating-point values is outside the model.
\<close>

subsection \<open>Data model\<close>

text \<open>
  Modelled from the spec: the table \<open>SERVER_TYPE\<close> of \<open>pymongo.server_type\<close> is not part
  of the sources. The spec gives the closed sum of member types; the module compares a
  member's type with \<open>RSSecondary\<close> only.
\<close>

datatype server_type = Unknown | RSPrimary | RSSecondary | RSArbiter | RSOther | RSGhost

text \<open>
  Modelled from the spec: the class \<open>ServerDescription\<close> is not part of the sources.
  These are the four attributes the module reads.
\<close>

record server_description =
  server_type :: server_type
  last_update_time :: int
  last_write_date :: int
  idle_write_period :: int

text \<open>
  Modelled from the spec: the class \<open>Selection\<close> is not part of the sources. It holds
  the members, the deployment's heartbeat frequency and the primary's description when
  one is known (\<open>None\<close> otherwise). The primary is a reference of its own: it need not be
  among \<open>server_descriptions\<close>.
\<close>

record selection =
  server_descriptions :: "server_description list"
  heartbeat_frequency :: int
  primary :: "server_description option"

text \<open>
  Modelled from the spec: \<open>Selection.with_server_descriptions\<close>, the constructor that
  produces a \<open>Selection\<close> carrying a different member list and the same heartbeat
  frequency; the reference to the primary is carried over.
\<close>

definition with_server_descriptions :: "selection \<Rightarrow> server_description list \<Rightarrow> selection" where
  "with_server_descriptions selection sds = selection\<lparr>server_descriptions := sds\<rparr>"

text \<open>
  Modelled from the spec: the accessors \<open>secondary_with_max_last_write_date\<close> and
  \<open>secondary_with_max_last_update_time\<close> of \<open>Selection\<close>. Both range over the members
  of type \<open>RSSecondary\<close> and return \<open>None\<close> when there is none. The spec leaves the choice
  among tied members to the iteration order; \<open>max_by\<close> takes the first greatest member,
  as Python's \<open>max(..., key=...)\<close> does.
\<close>

fun max_by :: "('a \<Rightarrow> int) \<Rightarrow> 'a list \<Rightarrow> 'a option" where
  "max_by key [] = None"
| "max_by key (x # xs) =
     (case max_by key xs of
        None \<Rightarrow> Some x
      | Some y \<Rightarrow> if key x < key y then Some y else Some x)"

definition secondaries :: "selection \<Rightarrow> server_description list" where
  "secondaries selection =
     filter (\<lambda>s. server_type s = RSSecondary) (server_descriptions selection)"

definition secondary_with_max_last_write_date :: "selection \<Rightarrow> server_description option" where
  "secondary_with_max_last_write_date selection = max_by last_write_date (secondaries selection)"

definition secondary_with_max_last_update_time :: "selection \<Rightarrow> server_description option" where
  "secondary_with_max_last_update_time selection = max_by last_update_time (secondaries selection)"

subsection \<open>Errors\<close>

text \<open>
  \<open>ConfigurationError\<close> carries the three numbers its message is formatted from: the idle
  write period, the bound, and the heartbeat frequency times 1000. \<open>AssertionError\<close> is
  what a failed \<open>assert\<close> raises.
\<close>

datatype error = ConfigurationError int int int | AssertionError

subsection \<open>The bound validator\<close>

definition validate_max_staleness :: "int \<Rightarrow> int \<Rightarrow> int \<Rightarrow> error + unit" where
  "validate_max_staleness max_staleness heartbeat_frequency' idle_write_period' =
     (if max_staleness < heartbeat_frequency' + idle_write_period'
      then Inl (ConfigurationError idle_write_period' max_staleness (heartbeat_frequency' * 1000))
      else Inr ())"

subsection \<open>The filter for a known primary\<close>

text \<open>The \<open>for\<close> loop of \<open>_with_primary\<close>; \<open>sds\<close> is the list being built.\<close>

fun with_primary_loop ::
  "int \<Rightarrow> selection \<Rightarrow> server_description \<Rightarrow> server_description list \<Rightarrow>
   server_description list \<Rightarrow> server_description list" where
  "with_primary_loop max_staleness selection p [] sds = sds"
| "with_primary_loop max_staleness selection p (s # rest) sds =
     (if server_type s = RSSecondary then
        (let staleness =
               (last_update_time s - last_write_date s) -
               (last_update_time p - last_write_date p) +
               heartbeat_frequency selection
         in if staleness \<le> max_staleness
            then with_primary_loop max_staleness selection p rest (sds @ [s])
            else with_primary_loop max_staleness selection p rest sds)
      else with_primary_loop max_staleness selection p rest (sds @ [s]))"

definition with_primary :: "int \<Rightarrow> selection \<Rightarrow> error + selection" where
  "with_primary max_staleness selection =
     (case primary selection of
        None \<Rightarrow> Inl AssertionError
      | Some p \<Rightarrow>
          (case validate_max_staleness max_staleness
                  (heartbeat_frequency selection) (idle_write_period p) of
             Inl e \<Rightarrow> Inl e
           | Inr _ \<Rightarrow>
               Inr (with_server_descriptions selection
                      (with_primary_loop max_staleness selection p
                         (server_descriptions selection) []))))"

subsection \<open>The filter without a primary\<close>

text \<open>The \<open>for\<close> loop of \<open>_no_primary\<close>.\<close>

fun no_primary_loop ::
  "int \<Rightarrow> selection \<Rightarrow> server_description \<Rightarrow> server_description list \<Rightarrow>
   server_description list \<Rightarrow> server_description list" where
  "no_primary_loop max_staleness selection smax [] sds = sds"
| "no_primary_loop max_staleness selection smax (s # rest) sds =
     (if server_type s = RSSecondary then
        (let staleness =
               last_write_date smax - last_write_date s + heartbeat_frequency selection
         in if staleness \<le> max_staleness
            then no_primary_loop max_staleness selection smax rest (sds @ [s])
            else no_primary_loop max_staleness selection smax rest sds)
      else no_primary_loop max_staleness selection smax rest (sds @ [s]))"

text \<open>
  The body of \<open>_no_primary\<close>, given what the two accessors returned: \<open>smax\<close> and
  \<open>srecent\<close>. The second accessor is called only when the first returned a member.
\<close>

definition no_primary_from ::
  "int \<Rightarrow> selection \<Rightarrow> server_description option \<Rightarrow> server_description option \<Rightarrow>
   error + selection" where
  "no_primary_from max_staleness selection smax' srecent' =
     (case smax' of
        None \<Rightarrow> Inr (with_server_descriptions selection [])
      | Some smax \<Rightarrow>
          (case srecent' of
             None \<Rightarrow> Inl AssertionError
           | Some srecent \<Rightarrow>
               (case validate_max_staleness max_staleness
                       (heartbeat_frequency selection) (idle_write_period srecent) of
                  Inl e \<Rightarrow> Inl e
                | Inr _ \<Rightarrow>
                    Inr (with_server_descriptions selection
                           (no_primary_loop max_staleness selection smax
                              (server_descriptions selection) [])))))"

definition no_primary :: "int \<Rightarrow> selection \<Rightarrow> error + selection" where
  "no_primary max_staleness selection =
     no_primary_from max_staleness selection
       (secondary_with_max_last_write_date selection)
       (secondary_with_max_last_update_time selection)"

subsection \<open>The dispatcher\<close>

text \<open>
  The bound is \<open>None\<close> when it is unset. Python's \<open>not max_staleness\<close> holds for \<open>None\<close>
  and for \<open>0\<close>, and for no other integer.
\<close>

definition select :: "int option \<Rightarrow> selection \<Rightarrow> error + selection" where
  "select max_staleness selection =
     (case max_staleness of
        None \<Rightarrow> Inr selection
      | Some m \<Rightarrow>
          if m = 0 then Inr selection
          else if primary selection \<noteq> None then with_primary m selection
          else no_primary m selection)"

subsection \<open>Which members an accessor may return\<close>

text \<open>
  \<open>greatest_secondary key selection s\<close>: \<open>s\<close> is a secondary of the selection and no
  secondary of the selection has a greater \<open>key\<close>. When several secondaries are tied for
  the greatest key, each of them satisfies it.
\<close>

definition greatest_secondary ::
  "(server_description \<Rightarrow> int) \<Rightarrow> selection \<Rightarrow> server_description \<Rightarrow> bool" where
  "greatest_secondary key selection s =
     (s \<in> set (secondaries selection) \<and> (\<forall>x \<in> set (secondaries selection). key x \<le> key s))"

subsection \<open>Selections as objects\<close>

text \<open>
  Python passes a \<open>Selection\<close> by reference. The heap lists the \<open>Selection\<close> objects by
  address; a reference the program holds is an index into it. Server descriptions are
  immutable and stay values. The module never assigns to an attribute of an object; its
  one effect on the heap is the object that \<open>with_server_descriptions\<close> constructs
  (modelled from the spec: a new \<open>Selection\<close>, at a fresh address). A reference passed
  to a function points to an object: \<open>r < length h\<close>.
\<close>

type_synonym ref = nat
type_synonym heap = "selection list"

definition with_server_descriptions_ref ::
  "ref \<Rightarrow> server_description list \<Rightarrow> heap \<Rightarrow> ref \<times> heap" where
  "with_server_descriptions_ref r sds h =
     (length h, h @ [with_server_descriptions (h ! r) sds])"

definition with_primary_ref :: "int \<Rightarrow> ref \<Rightarrow> heap \<Rightarrow> (error + ref) \<times> heap" where
  "with_primary_ref max_staleness r h =
     (case primary (h ! r) of
        None \<Rightarrow> (Inl AssertionError, h)
      | Some p \<Rightarrow>
          (case validate_max_staleness max_staleness
                  (heartbeat_frequency (h ! r)) (idle_write_period p) of
             Inl e \<Rightarrow> (Inl e, h)
           | Inr _ \<Rightarrow>
               (let sds = with_primary_loop max_staleness (h ! r) p
                            (server_descriptions (h ! r)) [];
                    (r', h') = with_server_descriptions_ref r sds h
                in (Inr r', h'))))"

definition no_primary_ref :: "int \<Rightarrow> ref \<Rightarrow> heap \<Rightarrow> (error + ref) \<times> heap" where
  "no_primary_ref max_staleness r h =
     (case secondary_with_max_last_write_date (h ! r) of
        None \<Rightarrow>
          (let (r', h') = with_server_descriptions_ref r [] h in (Inr r', h'))
      | Some smax \<Rightarrow>
          (case secondary_with_max_last_update_time (h ! r) of
             None \<Rightarrow> (Inl AssertionError, h)
           | Some srecent \<Rightarrow>
               (case validate_max_staleness max_staleness
                       (heartbeat_frequency (h ! r)) (idle_write_period srecent) of
                  Inl e \<Rightarrow> (Inl e, h)
                | Inr _ \<Rightarrow>
                    (let sds = no_primary_loop max_staleness (h ! r) smax
                                 (server_descriptions (h ! r)) [];
                         (r', h') = with_server_descriptions_ref r sds h
                     in (Inr r', h')))))"

definition select_ref :: "int option \<Rightarrow> ref \<Rightarrow> heap \<Rightarrow> (error + ref) \<times> heap" where
  "select_ref max_staleness r h =
     (case max_staleness of
        None \<Rightarrow> (Inr r, h)
      | Some m \<Rightarrow>
          if m = 0 then (Inr r, h)
          else if primary (h ! r) \<noteq> None then with_primary_ref m r h
          else no_primary_ref m r h)"

subsection \<open>Example snapshots\<close>

text \<open>
  The configuration of the spec's scenarios 1 and 2: heartbeat frequency 10, a primary
  with idle write period 10 whose last write is 1 second older than its last update,
  secondaries whose last write is 5 and 15 seconds older than their last update, and an
  arbiter.
\<close>

definition scenario_primary :: server_description where
  "scenario_primary =
     \<lparr>server_type = RSPrimary, last_update_time = 101, last_write_date = 100,
      idle_write_period = 10\<rparr>"

definition scenario_secondary_5 :: server_description where
  "scenario_secondary_5 =
     \<lparr>server_type = RSSecondary, last_update_time = 105, last_write_date = 100,
      idle_write_period = 10\<rparr>"

definition scenario_secondary_15 :: server_description where
  "scenario_secondary_15 =
     \<lparr>server_type = RSSecondary, last_update_time = 115, last_write_date = 100,
      idle_write_period = 10\<rparr>"

definition scenario_arbiter :: server_description where
  "scenario_arbiter =
     \<lparr>server_type = RSArbiter, last_update_time = 100, last_write_date = 0,
      idle_write_period = 10\<rparr>"

definition scenario_with_primary :: selection where
  "scenario_with_primary =
     \<lparr>server_descriptions =
        [scenario_primary, scenario_secondary_5, scenario_secondary_15, scenario_arbiter],
      heartbeat_frequency = 10,
      primary = Some scenario_primary\<rparr>"

text \<open>
  Scenario 3: no primary, heartbeat frequency 10, secondary A with last write date 100
  and secondary B with last write date 70, and an arbiter.
\<close>

definition scenario_a :: server_description where
  "scenario_a =
     \<lparr>server_type = RSSecondary, last_update_time = 105, last_write_date = 100,
      idle_write_period = 10\<rparr>"

definition scenario_b :: server_description where
  "scenario_b =
     \<lparr>server_type = RSSecondary, last_update_time = 104, last_write_date = 70,
      idle_write_period = 10\<rparr>"

definition scenario_no_primary :: selection where
  "scenario_no_primary =
     \<lparr>server_descriptions = [scenario_a, scenario_b, scenario_arbiter],
      heartbeat_frequency = 10,
      primary = None\<rparr>"

text \<open>A snapshot with neither a primary nor a secondary: one arbiter.\<close>

definition scenario_arbiter_only :: selection where
  "scenario_arbiter_only =
     \<lparr>server_descriptions = [scenario_arbiter], heartbeat_frequency = 10, primary = None\<rparr>"

text \<open>
  Two secondaries tied for the greatest last write date and the greatest last update
  time, with idle write periods 10 and 100, in both orders.
\<close>

definition tie_a :: server_description where
  "tie_a =
     \<lparr>server_type = RSSecondary, last_update_time = 100, last_write_date = 100,
      idle_write_period = 10\<rparr>"

definition tie_b :: server_description where
  "tie_b =
     \<lparr>server_type = RSSecondary, last_update_time = 100, last_write_date = 100,
      idle_write_period = 100\<rparr>"

definition scenario_tie :: selection where
  "scenario_tie =
     \<lparr>server_descriptions = [tie_a, tie_b], heartbeat_frequency = 10, primary = None\<rparr>"

definition scenario_tie_reversed :: selection where
  "scenario_tie_reversed =
     \<lparr>server_descriptions = [tie_b, tie_a], heartbeat_frequency = 10, primary = None\<rparr>"

section \<open>Properties\<close>

subsection \<open>Auxiliary facts\<close>

lemmas scenario_defs =
  scenario_primary_def scenario_secondary_5_def scenario_secondary_15_def scenario_arbiter_def
  scenario_with_primary_def scenario_a_def scenario_b_def scenario_no_primary_def
  scenario_arbiter_only_def tie_a_def tie_b_def scenario_tie_def scenario_tie_reversed_def

lemmas accessor_defs =
  secondary_with_max_last_write_date_def secondary_with_max_last_update_time_def
  secondaries_def

lemmas filter_defs =
  with_primary_def no_primary_def no_primary_from_def validate_max_staleness_def
  with_server_descriptions_def

text \<open>Each loop appends to \<open>sds\<close> the members that pass its test, in order.\<close>

lemma with_primary_loop_eq:
  "with_primary_loop m sel p xs sds =
     sds @ filter (\<lambda>s. server_type s = RSSecondary \<longrightarrow>
        (last_update_time s - last_write_date s) - (last_update_time p - last_write_date p)
          + heartbeat_frequency sel \<le> m) xs"
  by (induction xs arbitrary: sds) (simp_all add: Let_def)

lemma no_primary_loop_eq:
  "no_primary_loop m sel smax xs sds =
     sds @ filter (\<lambda>s. server_type s = RSSecondary \<longrightarrow>
        last_write_date smax - last_write_date s + heartbeat_frequency sel \<le> m) xs"
  by (induction xs arbitrary: sds) (simp_all add: Let_def)

text \<open>The accessors return a greatest secondary, and \<open>None\<close> only when there is none.\<close>

lemma max_by_None: "(max_by key xs = None) = (xs = [])"
  by (induction xs) (simp_all split: option.splits)

lemma max_by_mem: "max_by key xs = Some m \<Longrightarrow> m \<in> set xs"
  by (induction xs arbitrary: m) (auto split: option.splits if_splits)

lemma max_by_greatest: "max_by key xs = Some m \<Longrightarrow> x \<in> set xs \<Longrightarrow> key x \<le> key m"
  by (induction xs arbitrary: m) (auto split: option.splits if_splits simp: max_by_None)

lemma smax_greatest:
  "secondary_with_max_last_write_date sel = Some s \<Longrightarrow>
     greatest_secondary last_write_date sel s"
  unfolding secondary_with_max_last_write_date_def greatest_secondary_def
  by (blast intro: max_by_mem max_by_greatest)

lemma srecent_greatest:
  "secondary_with_max_last_update_time sel = Some s \<Longrightarrow>
     greatest_secondary last_update_time sel s"
  unfolding secondary_with_max_last_update_time_def greatest_secondary_def
  by (blast intro: max_by_mem max_by_greatest)

lemma no_secondary_iff:
  "(secondaries sel = []) =
     (\<forall>s \<in> set (server_descriptions sel). server_type s \<noteq> RSSecondary)"
  by (auto simp: secondaries_def filter_empty_conv)

lemma smax_None:
  "(secondary_with_max_last_write_date sel = None) = (secondaries sel = [])"
  by (simp add: secondary_with_max_last_write_date_def max_by_None)

lemma srecent_None:
  "(secondary_with_max_last_update_time sel = None) = (secondaries sel = [])"
  by (simp add: secondary_with_max_last_update_time_def max_by_None)

lemma greatest_secondary_key:
  "greatest_secondary key sel a \<Longrightarrow> greatest_secondary key sel b \<Longrightarrow> key a = key b"
  unfolding greatest_secondary_def by (meson order_antisym)

text \<open>What a successful call of each filter returns.\<close>

lemma with_primary_Inr:
  "with_primary m sel = Inr out \<Longrightarrow>
     \<exists>p. primary sel = Some p \<and> heartbeat_frequency sel + idle_write_period p \<le> m \<and>
       out = sel\<lparr>server_descriptions := filter (\<lambda>s. server_type s = RSSecondary \<longrightarrow>
        (last_update_time s - last_write_date s) - (last_update_time p - last_write_date p)
          + heartbeat_frequency sel \<le> m) (server_descriptions sel)\<rparr>"
  by (auto simp: with_primary_def validate_max_staleness_def with_server_descriptions_def
      with_primary_loop_eq split: option.splits if_splits)

lemma no_primary_from_Inr:
  "no_primary_from m sel (Some smax) (Some srecent) = Inr out \<Longrightarrow>
     heartbeat_frequency sel + idle_write_period srecent \<le> m \<and>
     out = sel\<lparr>server_descriptions := filter (\<lambda>s. server_type s = RSSecondary \<longrightarrow>
        last_write_date smax - last_write_date s + heartbeat_frequency sel \<le> m)
          (server_descriptions sel)\<rparr>"
  by (auto simp: no_primary_from_def validate_max_staleness_def with_server_descriptions_def
      no_primary_loop_eq split: if_splits)

lemma no_primary_Inr:
  "no_primary m sel = Inr out \<Longrightarrow>
     heartbeat_frequency out = heartbeat_frequency sel \<and>
     set (server_descriptions out) \<subseteq> set (server_descriptions sel)"
  by (auto simp: no_primary_def no_primary_from_def with_server_descriptions_def
      validate_max_staleness_def no_primary_loop_eq split: option.splits if_splits)

lemma select_Inr:
  assumes "select m sel = Inr out"
  shows "heartbeat_frequency out = heartbeat_frequency sel \<and>
     set (server_descriptions out) \<subseteq> set (server_descriptions sel)"
proof (cases "m = None \<or> m = Some 0")
  case True
  with assms show ?thesis by (auto simp: select_def)
next
  case False
  then obtain n where n: "m = Some n" "n \<noteq> 0" by auto
  show ?thesis
  proof (cases "primary sel")
    case None
    with assms n have "no_primary n sel = Inr out" by (simp add: select_def)
    then show ?thesis by (rule no_primary_Inr)
  next
    case (Some p)
    with assms n have "with_primary n sel = Inr out" by (simp add: select_def)
    from with_primary_Inr[OF this] show ?thesis by auto
  qed
qed

text \<open>
  On objects, each function computes what its counterpart on values computes, and puts a
  result that \<open>with_server_descriptions\<close> constructed at the next free address.
\<close>

lemma with_primary_ref_eq:
  "with_primary_ref m r h =
     (case with_primary m (h ! r) of
        Inl e \<Rightarrow> (Inl e, h)
      | Inr out \<Rightarrow> (Inr (length h), h @ [out]))"
  by (simp add: with_primary_ref_def with_primary_def with_server_descriptions_ref_def
      split: option.splits sum.splits)

lemma no_primary_ref_eq:
  "no_primary_ref m r h =
     (case no_primary m (h ! r) of
        Inl e \<Rightarrow> (Inl e, h)
      | Inr out \<Rightarrow> (Inr (length h), h @ [out]))"
  by (simp add: no_primary_ref_def no_primary_def no_primary_from_def
      with_server_descriptions_ref_def split: option.splits sum.splits)

lemma select_ref_eq:
  "select_ref m r h =
     (case select m (h ! r) of
        Inl e \<Rightarrow> (Inl e, h)
      | Inr out \<Rightarrow>
          if m = None \<or> m = Some 0 then (Inr r, h) else (Inr (length h), h @ [out]))"
  by (simp add: select_ref_def select_def with_primary_ref_eq no_primary_ref_eq
      split: option.splits sum.splits)

text \<open>
  With the configuration of the spec's scenarios 1 and 2 (heartbeat frequency 10, idle
  write period 10) the bound 15 is below 10 + 10 and is refused; 20 is the least bound
  that passes.
\<close>

lemma scenario_bound_15_refused:
  "with_primary 15 scenario_with_primary = Inl (ConfigurationError 10 15 10000)"
  by (simp add: filter_defs scenario_defs)

subsection \<open>The bound validator\<close>

text \<open>
  C3. The validator raises a \<open>ConfigurationError\<close> exactly when the bound is below
  heartbeat frequency plus idle write period, for all inputs (non-negative ones among
  them); a bound equal to that sum passes.
\<close>

theorem validate_max_staleness_iff:
  "(validate_max_staleness m hb idle = Inl (ConfigurationError idle m (hb * 1000)))
     = (m < hb + idle)
   \<and> (validate_max_staleness m hb idle = Inr ()) = (hb + idle \<le> m)
   \<and> validate_max_staleness (hb + idle) hb idle = Inr ()"
  by (simp add: validate_max_staleness_def)

subsection \<open>The filter for a known primary\<close>

text \<open>
  C1. When the selection has the primary \<open>P\<close> and \<open>_with_primary\<close> returns (the bound
  passed validation), a member \<open>S\<close> of type \<open>RSSecondary\<close> is in the output exactly when
  \<open>(S.last_update_time - S.last_write_date) - (P.last_update_time - P.last_write_date)
  + heartbeat_frequency \<le> max_staleness\<close>.
\<close>

theorem with_primary_keeps_iff:
  assumes "primary selection = Some P"
    and "with_primary m selection = Inr out"
    and "S \<in> set (server_descriptions selection)"
    and "server_type S = RSSecondary"
  shows "(S \<in> set (server_descriptions out)) =
     ((last_update_time S - last_write_date S) - (last_update_time P - last_write_date P)
        + heartbeat_frequency selection \<le> m)"
  using with_primary_Inr[OF assms(2)] assms(1,3,4) by auto

theorem with_primary_keeps_iff_witness:
  "primary scenario_with_primary = Some scenario_primary
   \<and> with_primary 20 scenario_with_primary =
       Inr (scenario_with_primary\<lparr>server_descriptions :=
              [scenario_primary, scenario_secondary_5, scenario_arbiter]\<rparr>)
   \<and> scenario_secondary_5 \<in> set (server_descriptions scenario_with_primary)
   \<and> scenario_secondary_15 \<in> set (server_descriptions scenario_with_primary)
   \<and> server_type scenario_secondary_5 = RSSecondary
   \<and> server_type scenario_secondary_15 = RSSecondary
   \<and> scenario_secondary_5 \<in> set [scenario_primary, scenario_secondary_5, scenario_arbiter]
   \<and> scenario_secondary_15 \<notin> set [scenario_primary, scenario_secondary_5, scenario_arbiter]"
proof -
  have p: "primary scenario_with_primary = Some scenario_primary"
    by (simp add: scenario_with_primary_def)
  have r: "with_primary 20 scenario_with_primary =
       Inr (scenario_with_primary\<lparr>server_descriptions :=
              [scenario_primary, scenario_secondary_5, scenario_arbiter]\<rparr>)"
    by (simp add: filter_defs scenario_defs)
  have m5: "scenario_secondary_5 \<in> set (server_descriptions scenario_with_primary)"
    and m15: "scenario_secondary_15 \<in> set (server_descriptions scenario_with_primary)"
    by (simp_all add: scenario_with_primary_def)
  have t5: "server_type scenario_secondary_5 = RSSecondary"
    and t15: "server_type scenario_secondary_15 = RSSecondary"
    by (simp_all add: scenario_secondary_5_def scenario_secondary_15_def)
  show ?thesis
    using p r m5 m15 t5 t15
      with_primary_keeps_iff [OF p r m5 t5] with_primary_keeps_iff [OF p r m15 t15]
    by (simp add: scenario_defs)
qed

text \<open>
  C7. With a primary, a smaller bound keeps no secondary that a greater bound drops: when
  \<open>_with_primary\<close> returns for both \<open>m1 \<le> m2\<close>, the secondaries in the output for \<open>m1\<close> are
  among those in the output for \<open>m2\<close>.
\<close>

theorem with_primary_mono:
  assumes "m1 \<le> m2"
    and "with_primary m1 selection = Inr out1"
    and "with_primary m2 selection = Inr out2"
  shows "{s \<in> set (server_descriptions out1). server_type s = RSSecondary}
       \<subseteq> {s \<in> set (server_descriptions out2). server_type s = RSSecondary}"
  using with_primary_Inr[OF assms(2)] with_primary_Inr[OF assms(3)] assms(1) by auto

theorem with_primary_mono_witness:
  "(20::int) \<le> 90
   \<and> with_primary 20 scenario_with_primary =
       Inr (scenario_with_primary\<lparr>server_descriptions :=
              [scenario_primary, scenario_secondary_5, scenario_arbiter]\<rparr>)
   \<and> with_primary 90 scenario_with_primary = Inr scenario_with_primary
   \<and> {s \<in> set [scenario_primary, scenario_secondary_5, scenario_arbiter].
         server_type s = RSSecondary}
       \<subseteq> {s \<in> set (server_descriptions scenario_with_primary). server_type s = RSSecondary}"
proof -
  have l: "(20::int) \<le> 90" by simp
  have a: "with_primary 20 scenario_with_primary =
       Inr (scenario_with_primary\<lparr>server_descriptions :=
              [scenario_primary, scenario_secondary_5, scenario_arbiter]\<rparr>)"
    by (simp add: filter_defs scenario_defs)
  have b: "with_primary 90 scenario_with_primary = Inr scenario_with_primary"
    by (simp add: filter_defs scenario_defs)
  show ?thesis
    using l a b with_primary_mono [OF l a b] by simp
qed

subsection \<open>The filter without a primary\<close>

text \<open>
  C2. When \<open>_no_primary\<close> returns (the bound passed validation), a member \<open>S\<close> of type
  \<open>RSSecondary\<close> is in the output exactly when
  \<open>SMax.last_write_date - S.last_write_date + heartbeat_frequency \<le> max_staleness\<close>, for
  every secondary \<open>SMax\<close> of the selection with the greatest last write date. The function
  does not read \<open>primary\<close>, so this holds for the selections without a primary.
\<close>

theorem no_primary_keeps_iff:
  assumes "no_primary m selection = Inr out"
    and "S \<in> set (server_descriptions selection)"
    and "server_type S = RSSecondary"
    and "greatest_secondary last_write_date selection SMax"
  shows "(S \<in> set (server_descriptions out)) =
     (last_write_date SMax - last_write_date S + heartbeat_frequency selection \<le> m)"
proof -
  have "secondaries selection \<noteq> []"
    using assms(2,3) by (auto simp: no_secondary_iff)
  then obtain smax srecent where
    a: "secondary_with_max_last_write_date selection = Some smax"
    and b: "secondary_with_max_last_update_time selection = Some srecent"
    using smax_None srecent_None by (metis not_Some_eq)
  have "last_write_date smax = last_write_date SMax"
    using smax_greatest[OF a] assms(4) by (rule greatest_secondary_key)
  moreover have "no_primary_from m selection (Some smax) (Some srecent) = Inr out"
    using assms(1) a b by (simp add: no_primary_def)
  ultimately show ?thesis
    using no_primary_from_Inr[of m selection smax srecent out] assms(2,3) by auto
qed

theorem no_primary_keeps_iff_witness:
  "no_primary 35 scenario_no_primary =
       Inr (scenario_no_primary\<lparr>server_descriptions := [scenario_a, scenario_arbiter]\<rparr>)
   \<and> scenario_a \<in> set (server_descriptions scenario_no_primary)
   \<and> scenario_b \<in> set (server_descriptions scenario_no_primary)
   \<and> server_type scenario_a = RSSecondary
   \<and> server_type scenario_b = RSSecondary
   \<and> greatest_secondary last_write_date scenario_no_primary scenario_a
   \<and> scenario_a \<in> set [scenario_a, scenario_arbiter]
   \<and> scenario_b \<notin> set [scenario_a, scenario_arbiter]"
proof -
  have r: "no_primary 35 scenario_no_primary =
       Inr (scenario_no_primary\<lparr>server_descriptions := [scenario_a, scenario_arbiter]\<rparr>)"
    by (simp add: filter_defs accessor_defs scenario_defs)
  have ma: "scenario_a \<in> set (server_descriptions scenario_no_primary)"
    and mb: "scenario_b \<in> set (server_descriptions scenario_no_primary)"
    by (simp_all add: scenario_no_primary_def)
  have ta: "server_type scenario_a = RSSecondary"
    and tb: "server_type scenario_b = RSSecondary"
    by (simp_all add: scenario_a_def scenario_b_def)
  have g: "greatest_secondary last_write_date scenario_no_primary scenario_a"
    by (simp add: greatest_secondary_def accessor_defs scenario_defs)
  show ?thesis
    using r ma mb ta tb g
      no_primary_keeps_iff [OF r ma ta g] no_primary_keeps_iff [OF r mb tb g]
    by (simp add: scenario_defs)
qed

text \<open>
  C5. For a selection with no primary and no member of type \<open>RSSecondary\<close>, and every
  bound other than \<open>0\<close> (feasible or not, negative or not), \<open>select\<close> returns the selection
  with an empty member list and raises nothing.
\<close>

theorem select_no_primary_no_secondary:
  assumes "primary selection = None"
    and "\<forall>s \<in> set (server_descriptions selection). server_type s \<noteq> RSSecondary"
    and "m \<noteq> 0"
  shows "select (Some m) selection = Inr (selection\<lparr>server_descriptions := []\<rparr>)"
proof -
  have "secondaries selection = []"
    using assms(2) by (simp add: no_secondary_iff)
  then have "secondary_with_max_last_write_date selection = None"
    by (simp add: smax_None)
  then show ?thesis
    using assms(1,3)
    by (simp add: select_def no_primary_def no_primary_from_def with_server_descriptions_def)
qed

theorem select_no_primary_no_secondary_witness:
  "primary scenario_arbiter_only = None
   \<and> server_descriptions scenario_arbiter_only = [scenario_arbiter]
   \<and> server_type scenario_arbiter \<noteq> RSSecondary
   \<and> (1::int) \<noteq> 0
   \<and> select (Some 1) scenario_arbiter_only =
       Inr (scenario_arbiter_only\<lparr>server_descriptions := []\<rparr>)"
proof -
  have p: "primary scenario_arbiter_only = None"
    by (simp add: scenario_arbiter_only_def)
  have n: "\<forall>s \<in> set (server_descriptions scenario_arbiter_only). server_type s \<noteq> RSSecondary"
    by (simp add: scenario_arbiter_only_def scenario_arbiter_def)
  have t: "(1::int) \<noteq> 0" by simp
  show ?thesis
    using p select_no_primary_no_secondary [OF p n t]
    by (simp add: scenario_arbiter_only_def scenario_arbiter_def)
qed

subsection \<open>Members that are not secondaries\<close>

text \<open>
  C6, as stated, fails for the filter without a primary: on a selection with no primary
  and no secondary the short-circuit returns an empty member list, so the arbiter of
  \<open>scenario_arbiter_only\<close> is dropped at the bound 90, and nothing is raised.
\<close>

theorem non_secondary_dropped_counterexample:
  "primary scenario_arbiter_only = None
   \<and> scenario_arbiter \<in> set (server_descriptions scenario_arbiter_only)
   \<and> server_type scenario_arbiter \<noteq> RSSecondary
   \<and> no_primary 90 scenario_arbiter_only =
       Inr (scenario_arbiter_only\<lparr>server_descriptions := []\<rparr>)
   \<and> select (Some 90) scenario_arbiter_only =
       Inr (scenario_arbiter_only\<lparr>server_descriptions := []\<rparr>)
   \<and> scenario_arbiter \<notin> set (server_descriptions
         (scenario_arbiter_only\<lparr>server_descriptions := []\<rparr>))"
  by (simp add: select_def filter_defs accessor_defs scenario_defs)

text \<open>
  C6, amended. A member whose type is not \<open>RSSecondary\<close> is in the output of
  \<open>_with_primary\<close> whenever that call returns, and in the output of \<open>_no_primary\<close> whenever
  that call returns and the selection has at least one member of type \<open>RSSecondary\<close>.
\<close>

theorem non_secondary_retained:
  assumes "s \<in> set (server_descriptions selection)"
    and "server_type s \<noteq> RSSecondary"
  shows "(with_primary m selection = Inr out \<longrightarrow> s \<in> set (server_descriptions out))
    \<and> (no_primary m selection = Inr out
         \<longrightarrow> (\<exists>x \<in> set (server_descriptions selection). server_type x = RSSecondary)
         \<longrightarrow> s \<in> set (server_descriptions out))"
proof (intro conjI impI)
  assume "with_primary m selection = Inr out"
  from with_primary_Inr[OF this] assms show "s \<in> set (server_descriptions out)"
    by auto
next
  assume r: "no_primary m selection = Inr out"
    and ex: "\<exists>x \<in> set (server_descriptions selection). server_type x = RSSecondary"
  from ex have "secondaries selection \<noteq> []"
    by (auto simp: no_secondary_iff)
  then obtain smax srecent where
    "secondary_with_max_last_write_date selection = Some smax"
    "secondary_with_max_last_update_time selection = Some srecent"
    using smax_None srecent_None by (metis not_Some_eq)
  with r have "no_primary_from m selection (Some smax) (Some srecent) = Inr out"
    by (simp add: no_primary_def)
  from no_primary_from_Inr[OF this] assms show "s \<in> set (server_descriptions out)"
    by auto
qed

theorem non_secondary_retained_witness:
  "scenario_arbiter \<in> set (server_descriptions scenario_with_primary)
   \<and> server_type scenario_arbiter \<noteq> RSSecondary
   \<and> with_primary 20 scenario_with_primary =
       Inr (scenario_with_primary\<lparr>server_descriptions :=
              [scenario_primary, scenario_secondary_5, scenario_arbiter]\<rparr>)
   \<and> no_primary 20 scenario_with_primary =
       Inr (scenario_with_primary\<lparr>server_descriptions :=
              [scenario_primary, scenario_secondary_5, scenario_secondary_15, scenario_arbiter]\<rparr>)
   \<and> (\<exists>x \<in> set (server_descriptions scenario_with_primary). server_type x = RSSecondary)
   \<and> scenario_arbiter \<in> set [scenario_primary, scenario_secondary_5, scenario_arbiter]
   \<and> scenario_arbiter \<in>
       set [scenario_primary, scenario_secondary_5, scenario_secondary_15, scenario_arbiter]"
proof -
  have a: "scenario_arbiter \<in> set (server_descriptions scenario_with_primary)"
    by (simp add: scenario_with_primary_def)
  have t: "server_type scenario_arbiter \<noteq> RSSecondary"
    by (simp add: scenario_arbiter_def)
  have w: "with_primary 20 scenario_with_primary =
       Inr (scenario_with_primary\<lparr>server_descriptions :=
              [scenario_primary, scenario_secondary_5, scenario_arbiter]\<rparr>)"
    by (simp add: filter_defs scenario_defs)
  have n: "no_primary 20 scenario_with_primary =
       Inr (scenario_with_primary\<lparr>server_descriptions :=
              [scenario_primary, scenario_secondary_5, scenario_secondary_15, scenario_arbiter]\<rparr>)"
    by (simp add: filter_defs accessor_defs scenario_defs)
  have e: "\<exists>x \<in> set (server_descriptions scenario_with_primary). server_type x = RSSecondary"
    by (simp add: scenario_defs)
  show ?thesis
    using a t w n e
      non_secondary_retained [OF a t, of 20 "scenario_with_primary\<lparr>server_descriptions :=
              [scenario_primary, scenario_secondary_5, scenario_arbiter]\<rparr>"]
      non_secondary_retained [OF a t, of 20 "scenario_with_primary\<lparr>server_descriptions :=
              [scenario_primary, scenario_secondary_5, scenario_secondary_15, scenario_arbiter]\<rparr>"]
    by simp
qed

subsection \<open>Tied secondaries\<close>

text \<open>
  C8, as stated, fails for \<open>Srecent\<close>: the validation reads the idle write period of the
  chosen member, which tied members need not share. In \<open>scenario_tie\<close> both secondaries
  have the greatest last write date and the greatest last update time; at the bound 50,
  choosing \<open>tie_a\<close> (idle write period 10) as \<open>Srecent\<close> returns every member, choosing
  \<open>tie_b\<close> (idle write period 100) raises. With the accessors taking the first greatest
  member, the two orders of the member list differ in the same way.
\<close>

theorem tie_break_counterexample:
  "greatest_secondary last_write_date scenario_tie tie_a
   \<and> greatest_secondary last_write_date scenario_tie tie_b
   \<and> greatest_secondary last_update_time scenario_tie tie_a
   \<and> greatest_secondary last_update_time scenario_tie tie_b
   \<and> no_primary_from 50 scenario_tie (Some tie_a) (Some tie_a) = Inr scenario_tie
   \<and> no_primary_from 50 scenario_tie (Some tie_a) (Some tie_b) =
       Inl (ConfigurationError 100 50 10000)
   \<and> no_primary 50 scenario_tie = Inr scenario_tie
   \<and> no_primary 50 scenario_tie_reversed = Inl (ConfigurationError 100 50 10000)"
  by (simp add: greatest_secondary_def filter_defs accessor_defs scenario_defs)

text \<open>
  C8, amended. The result of \<open>_no_primary\<close> (the error raised, or the members kept) is the
  same whichever secondary with the greatest last write date is taken as \<open>SMax\<close>, and the
  same for any two choices of \<open>Srecent\<close> that have the same idle write period: only the
  last write date of \<open>SMax\<close> and the idle write period of \<open>Srecent\<close> enter the computation.
\<close>

theorem tie_break_independent:
  assumes "greatest_secondary last_write_date selection smax1"
    and "greatest_secondary last_write_date selection smax2"
    and "idle_write_period srecent1 = idle_write_period srecent2"
  shows "no_primary_from m selection (Some smax1) (Some srecent1) =
         no_primary_from m selection (Some smax2) (Some srecent2)"
proof -
  have "last_write_date smax1 = last_write_date smax2"
    using assms(1,2) by (rule greatest_secondary_key)
  then have "no_primary_loop m selection smax1 (server_descriptions selection) [] =
             no_primary_loop m selection smax2 (server_descriptions selection) []"
    by (simp add: no_primary_loop_eq)
  then show ?thesis
    using assms(3) by (simp add: no_primary_from_def split: sum.splits)
qed

theorem tie_break_independent_witness:
  "greatest_secondary last_write_date scenario_tie tie_a
   \<and> greatest_secondary last_write_date scenario_tie tie_b
   \<and> idle_write_period tie_a = idle_write_period tie_a
   \<and> no_primary_from 50 scenario_tie (Some tie_a) (Some tie_a) =
       no_primary_from 50 scenario_tie (Some tie_b) (Some tie_a)"
proof -
  have a: "greatest_secondary last_write_date scenario_tie tie_a"
    and b: "greatest_secondary last_write_date scenario_tie tie_b"
    by (simp_all add: greatest_secondary_def accessor_defs scenario_defs)
  have i: "idle_write_period tie_a = idle_write_period tie_a"
    by simp
  show ?thesis
    using a b tie_break_independent [OF a b i, of 50] by simp
qed

subsection \<open>The dispatcher\<close>

text \<open>
  C4. With the bound \<open>0\<close> or unset, \<open>select\<close> returns its input as it is, whatever the
  heartbeat frequency, the idle write periods and the members are: nothing is validated
  and nothing is filtered.
\<close>

theorem select_disabled:
  "select (Some 0) selection = Inr selection \<and> select None selection = Inr selection"
  by (simp add: select_def)

text \<open>
  C10. A negative bound does not disable the stage. When the selection has a primary or
  at least one member of type \<open>RSSecondary\<close>, the heartbeat frequency is not negative and
  the idle write period that the validation reads (the primary's, or without a primary
  that of the secondary with the greatest last update time) is not negative, \<open>select\<close>
  raises a \<open>ConfigurationError\<close> for every negative bound.
\<close>

theorem select_negative:
  assumes "m < 0"
    and "0 \<le> heartbeat_frequency selection"
    and "primary selection \<noteq> None
         \<or> (\<exists>s \<in> set (server_descriptions selection). server_type s = RSSecondary)"
    and "\<forall>p. primary selection = Some p \<longrightarrow> 0 \<le> idle_write_period p"
    and "\<forall>srecent. primary selection = None
           \<longrightarrow> secondary_with_max_last_update_time selection = Some srecent
           \<longrightarrow> 0 \<le> idle_write_period srecent"
  shows "\<exists>idle. select (Some m) selection =
           Inl (ConfigurationError idle m (heartbeat_frequency selection * 1000))"
proof (cases "primary selection")
  case (Some p)
  with assms(4) have "0 \<le> idle_write_period p" by simp
  with assms(1,2) Some show ?thesis
    by (simp add: select_def with_primary_def validate_max_staleness_def)
next
  case None
  with assms(3) have "secondaries selection \<noteq> []"
    by (auto simp: no_secondary_iff)
  then obtain smax srecent where
    a: "secondary_with_max_last_write_date selection = Some smax"
    and b: "secondary_with_max_last_update_time selection = Some srecent"
    using smax_None srecent_None by (metis not_Some_eq)
  from assms(5) None b have "0 \<le> idle_write_period srecent" by simp
  with assms(1,2) None a b show ?thesis
    by (simp add: select_def no_primary_def no_primary_from_def validate_max_staleness_def)
qed

theorem select_negative_witness:
  "(-1::int) < 0
   \<and> 0 \<le> heartbeat_frequency scenario_with_primary
   \<and> primary scenario_with_primary = Some scenario_primary
   \<and> 0 \<le> idle_write_period scenario_primary
   \<and> select (Some (-1)) scenario_with_primary = Inl (ConfigurationError 10 (-1) 10000)
   \<and> 0 \<le> heartbeat_frequency scenario_no_primary
   \<and> primary scenario_no_primary = None
   \<and> (\<exists>s \<in> set (server_descriptions scenario_no_primary). server_type s = RSSecondary)
   \<and> secondary_with_max_last_update_time scenario_no_primary = Some scenario_a
   \<and> 0 \<le> idle_write_period scenario_a
   \<and> select (Some (-1)) scenario_no_primary = Inl (ConfigurationError 10 (-1) 10000)"
proof -
  have m: "(-1::int) < 0" by simp
  have h1: "0 \<le> heartbeat_frequency scenario_with_primary"
    and h2: "0 \<le> heartbeat_frequency scenario_no_primary"
    by (simp_all add: scenario_defs)
  have p1: "primary scenario_with_primary \<noteq> None
         \<or> (\<exists>s \<in> set (server_descriptions scenario_with_primary). server_type s = RSSecondary)"
    by (simp add: scenario_defs)
  have p2: "primary scenario_no_primary \<noteq> None
         \<or> (\<exists>s \<in> set (server_descriptions scenario_no_primary). server_type s = RSSecondary)"
    by (simp add: scenario_defs)
  have i1: "\<forall>p. primary scenario_with_primary = Some p \<longrightarrow> 0 \<le> idle_write_period p"
    by (simp add: scenario_defs)
  have n1: "\<forall>srecent. primary scenario_with_primary = None
           \<longrightarrow> secondary_with_max_last_update_time scenario_with_primary = Some srecent
           \<longrightarrow> 0 \<le> idle_write_period srecent"
    by (simp add: scenario_defs)
  have i2: "\<forall>p. primary scenario_no_primary = Some p \<longrightarrow> 0 \<le> idle_write_period p"
    by (simp add: scenario_defs)
  have sr: "secondary_with_max_last_update_time scenario_no_primary = Some scenario_a"
    by (simp add: accessor_defs scenario_defs)
  have n2: "\<forall>srecent. primary scenario_no_primary = None
           \<longrightarrow> secondary_with_max_last_update_time scenario_no_primary = Some srecent
           \<longrightarrow> 0 \<le> idle_write_period srecent"
    by (simp add: sr) (simp add: scenario_defs)
  have c1: "select (Some (-1)) scenario_with_primary = Inl (ConfigurationError 10 (-1) 10000)"
    using select_negative [OF m h1 p1 i1 n1]
    by (simp add: select_def filter_defs scenario_defs)
  have c2: "select (Some (-1)) scenario_no_primary = Inl (ConfigurationError 10 (-1) 10000)"
    using select_negative [OF m h2 p2 i2 n2]
    by (simp add: select_def filter_defs accessor_defs scenario_defs)
  show ?thesis
    using m h1 h2 sr c1 c2 by (simp add: scenario_defs)
qed

subsection \<open>Frame\<close>

text \<open>
  C9. When \<open>select\<close>, called on the object at address \<open>r\<close>, returns the object at \<open>r'\<close>:
  the output has the heartbeat frequency of the input, every member of the output is a
  member of the input, and the input object (as every object that was on the heap) is
  as it was before the call. The output is the value that \<open>select\<close> computes from the
  input.
\<close>

theorem select_frame:
  assumes "r < length h"
    and "select_ref m r h = (Inr r', h')"
  shows "r' < length h'
    \<and> select m (h ! r) = Inr (h' ! r')
    \<and> heartbeat_frequency (h' ! r') = heartbeat_frequency (h ! r)
    \<and> set (server_descriptions (h' ! r')) \<subseteq> set (server_descriptions (h ! r))
    \<and> h' ! r = h ! r
    \<and> take (length h) h' = h"
proof -
  from assms(2) obtain out where out: "select m (h ! r) = Inr out"
    by (auto simp: select_ref_eq split: sum.splits)
  note fr = select_Inr[OF out]
  show ?thesis
  proof (cases "m = None \<or> m = Some 0")
    case True
    with assms out have "r' = r" "h' = h" "out = h ! r"
      by (auto simp: select_ref_eq select_def)
    with assms(1) out show ?thesis by simp
  next
    case False
    with assms(2) out have "r' = length h" "h' = h @ [out]"
      by (auto simp: select_ref_eq)
    with assms(1) fr out show ?thesis by (simp add: nth_append)
  qed
qed

theorem select_frame_witness:
  "(0::nat) < length [scenario_with_primary]
   \<and> select_ref (Some 20) 0 [scenario_with_primary] =
       (Inr 1, [scenario_with_primary,
                scenario_with_primary\<lparr>server_descriptions :=
                  [scenario_primary, scenario_secondary_5, scenario_arbiter]\<rparr>])
   \<and> select (Some 20) scenario_with_primary =
       Inr (scenario_with_primary\<lparr>server_descriptions :=
              [scenario_primary, scenario_secondary_5, scenario_arbiter]\<rparr>)
   \<and> heartbeat_frequency (scenario_with_primary\<lparr>server_descriptions :=
         [scenario_primary, scenario_secondary_5, scenario_arbiter]\<rparr>) =
       heartbeat_frequency scenario_with_primary
   \<and> set [scenario_primary, scenario_secondary_5, scenario_arbiter]
       \<subseteq> set (server_descriptions scenario_with_primary)"
proof -
  have l: "(0::nat) < length [scenario_with_primary]" by simp
  have r: "select_ref (Some 20) 0 [scenario_with_primary] =
       (Inr 1, [scenario_with_primary,
                scenario_with_primary\<lparr>server_descriptions :=
                  [scenario_primary, scenario_secondary_5, scenario_arbiter]\<rparr>])"
    by (simp add: select_ref_def with_primary_ref_def with_server_descriptions_ref_def
        filter_defs scenario_defs)
  show ?thesis
    using l r select_frame [OF l r] by simp
qed

end
